theory Spec2Isabelle
  imports Complex_Main
begin

section \<open>Images, references and the heap\<close>

text \<open>
  The masker of \<^verbatim>\<open>nilearn/maskers/nifti_maps_masker.py\<close> holds references to image
  objects and mutates one of them in place, so images live in a heap (a list of objects,
  a reference is an index into it) and the masker holds references.

  An image carries its shape, its affine and its data array. The spatial axes of the
  array are flattened: \<open>voxels\<close> has one row per voxel and, in a row, one value per
  position on the last axis (one value per map for a maps image), so that numpy's
  \<^verbatim>\<open>axis=3\<close> is "along a row". The dtype of the array is kept because the source
  branches on \<^verbatim>\<open>dtype.kind == "f"\<close>.
\<close>

datatype float_dtype = Float16 | Float32 | Float64

datatype dtype = Float float_dtype | Integer

fun finfo_eps :: "float_dtype \<Rightarrow> real" where
  "finfo_eps Float16 = 1 / 2 ^ 10"
| "finfo_eps Float32 = 1 / 2 ^ 23"
| "finfo_eps Float64 = 1 / 2 ^ 52"

record image =
  shape :: "nat list"
  affine :: "int list"
  data_dtype :: dtype
  voxels :: "real list list"

datatype 'a attr = Absent | Present 'a

type_synonym kwargs = "(string \<times> string) list"

type_synonym signals = "real list list"

datatype displayed = Disp_int int | Disp_list "int list" | Disp_str string | Disp_other

record report_content =
  description :: string
  warning_message :: "string option"
  number_of_maps :: "nat option"
  content_displayed_maps :: "int list option"

record reporting_data =
  rd_maps_image :: "nat option"
  rd_mask :: "nat option"
  rd_dim :: "nat option"
  rd_img :: "nat option"

section \<open>The masker object\<close>

text \<open>
  The constructor parameters come first, under the names \<^verbatim>\<open>__init__\<close> gives them; the
  parameters that are only handed on to signal cleaning (smoothing_fwhm, standardize,
  detrend, low_pass, high_pass, t_r, ...) are gathered in \<open>cleaning\<close>. Then the
  attributes that exist only once some method has assigned them: an attribute that
  Python's \<^verbatim>\<open>hasattr\<close> would not find is \<open>Absent\<close>. Python writes the fitted attributes
  with a trailing underscore (\<^verbatim>\<open>maps_img_\<close>); here they end in \<open>_fitted\<close>. The private
  \<^verbatim>\<open>_maps_img\<close> that RegionExtractor sets is \<open>priv_maps_img\<close> (\<open>None\<close>: not set).
\<close>

record masker =
  maps_img :: "nat option"
  mask_img :: "nat option"
  allow_overlap :: bool
  dtype :: "dtype option"
  resampling_target :: "string option"
  keep_masked_maps :: bool
  reports :: bool
  cleaning :: kwargs
  clean_args :: "kwargs option"
  clean_kwargs :: kwargs
  priv_maps_img :: "nat option"
  maps_img_fitted :: "nat option attr"
  mask_img_fitted :: "nat option attr"
  n_elements_fitted :: "nat attr"
  clean_args_fitted :: "kwargs attr"
  clean_kwargs_fitted :: "kwargs attr"
  report_content :: "report_content attr"
  reporting_data :: "reporting_data option attr"
  displayed_maps :: "displayed attr"

datatype interpolation = Linear | Nearest

datatype role = Maps | Mask

text \<open>
  What a call does to the world outside the masker is recorded in a trace: every call
  that loads, copies, reads or writes image data, and every warning. A resampling is
  recorded with the image it was called for and the interpolation it was called with.
  Messages printed by \<^verbatim>\<open>mask_logger\<close> are not recorded.
\<close>

datatype event =
    Ev_deepcopy nat
  | Ev_check_niimg
  | Ev_clean_img
  | Ev_load_mask
  | Ev_resample_img role interpolation
  | Ev_load_mask_img
  | Ev_compute_middle_image
  | Ev_get_data nat
  | Ev_write_data nat
  | Ev_filter_and_extract
  | Ev_signals_to_img_maps
  | Ev_warn string

datatype error =
    ValueError_invalid_resampling_target
  | ValueError_mask_target_without_mask
  | ValueError_fov_mismatch
  | ValueError_overlap
  | ValueError_cannot_display
  | ValueError_max_of_empty
  | TypeError_displayed_maps
  | NotFittedError
  | AttributeError
  | IndexError
  | Collaborator string

record state =
  self :: masker
  heap :: "image list"
  trace :: "event list"

section \<open>Collaborators\<close>

text \<open>
  The functions the masker imports from the rest of the package are not part of the
  sources at hand. They are parameters of the model: each is a function of the values
  it is given that returns a result or raises (\<open>Inl\<close> with its message). An image a
  collaborator returns becomes a new object of the heap. Two of them may also hand back
  the very object they were given (\<open>Same\<close>): \<^verbatim>\<open>check_niimg\<close>, and the base class's
  \<^verbatim>\<open>_load_mask\<close> for the mask parameter. \<^verbatim>\<open>clean_img\<close> may write into the data of the
  image it is given (sanitising in place): it returns that image as the call leaves it,
  and the cleaned image. No collaborator touches any other object.
  \<^verbatim>\<open>self._cache(f)\<close> memoises \<open>f\<close> and computes what \<open>f\<close> computes.
\<close>

datatype returned = Same | New image

record env =
  check_params :: "masker \<Rightarrow> string option"
  sanitize_cleaning_parameters :: "masker \<Rightarrow> string + kwargs"
  check_niimg :: "image option \<Rightarrow> dtype option \<Rightarrow> bool \<Rightarrow> string + returned"
  clean_img :: "image \<Rightarrow> string + image \<times> image"
  load_mask :: "image option \<Rightarrow> image option \<Rightarrow> string + returned option"
  resample_img :: "image \<Rightarrow> interpolation \<Rightarrow> nat list \<Rightarrow> int list \<Rightarrow> string + image"
  load_mask_img :: "image \<Rightarrow> string option"
  compute_middle_image :: "image \<Rightarrow> string + image \<times> nat"
  filter_and_extract ::
    "image \<Rightarrow> image \<Rightarrow> image option \<Rightarrow> masker \<Rightarrow> nat list option \<Rightarrow> int list option
      \<Rightarrow> kwargs \<Rightarrow> signals option \<Rightarrow> nat list option \<Rightarrow> string + signals"
  check_array :: "signals \<Rightarrow> string + signals"
  signals_to_img_maps :: "signals \<Rightarrow> image \<Rightarrow> image option \<Rightarrow> string + image"
  is_matplotlib_installed :: bool
  plot_component :: "image \<Rightarrow> image option \<Rightarrow> int \<Rightarrow> string + string"

section \<open>Sequencing calls that may raise\<close>

definition bind ::
  "(state \<Rightarrow> (error + 'a) \<times> state) \<Rightarrow> ('a \<Rightarrow> state \<Rightarrow> (error + 'b) \<times> state)
    \<Rightarrow> state \<Rightarrow> (error + 'b) \<times> state" where
  "bind f g s = (case f s of (Inl e, s') \<Rightarrow> (Inl e, s') | (Inr x, s') \<Rightarrow> g x s')"

definition return :: "'a \<Rightarrow> state \<Rightarrow> (error + 'a) \<times> state" where
  "return x s = (Inr x, s)"

definition raise :: "error \<Rightarrow> state \<Rightarrow> (error + 'a) \<times> state" where
  "raise e s = (Inl e, s)"

definition emit :: "event \<Rightarrow> state \<Rightarrow> state" where
  "emit ev s = s\<lparr>trace := trace s @ [ev]\<rparr>"

definition assign :: "(masker \<Rightarrow> masker) \<Rightarrow> state \<Rightarrow> (error + unit) \<times> state" where
  "assign f s = (Inr (), s\<lparr>self := f (self s)\<rparr>)"

definition new_object :: "image \<Rightarrow> state \<Rightarrow> (error + nat) \<times> state" where
  "new_object im s = (Inr (length (heap s)), s\<lparr>heap := heap s @ [im]\<rparr>)"

definition call_img :: "event \<Rightarrow> (state \<Rightarrow> string + image) \<Rightarrow> state \<Rightarrow> (error + nat) \<times> state" where
  "call_img ev f s =
     (case f s of
        Inl msg \<Rightarrow> (Inl (Collaborator msg), emit ev s)
      | Inr im \<Rightarrow> new_object im (emit ev s))"

definition call_check :: "event \<Rightarrow> (state \<Rightarrow> string option) \<Rightarrow> state \<Rightarrow> (error + unit) \<times> state" where
  "call_check ev f s =
     (case f s of
        Some msg \<Rightarrow> (Inl (Collaborator msg), emit ev s)
      | None \<Rightarrow> (Inr (), emit ev s))"

definition deepcopy :: "nat option \<Rightarrow> state \<Rightarrow> (error + nat option) \<times> state" where
  "deepcopy obj s =
     (case obj of
        None \<Rightarrow> (Inr None, s)
      | Some r \<Rightarrow> bind (new_object (heap s ! r)) (\<lambda>c. return (Some c)) (emit (Ev_deepcopy r) s))"

definition img_at :: "state \<Rightarrow> nat option \<Rightarrow> image option" where
  "img_at s obj = map_option (\<lambda>r. heap s ! r) obj"

definition call_check_niimg ::
  "env \<Rightarrow> nat option \<Rightarrow> dtype option \<Rightarrow> bool \<Rightarrow> state \<Rightarrow> (error + nat option) \<times> state" where
  "call_check_niimg E obj dt atleast_4d s =
     (case check_niimg E (img_at s obj) dt atleast_4d of
        Inl msg \<Rightarrow> (Inl (Collaborator msg), emit Ev_check_niimg s)
      | Inr Same \<Rightarrow> (Inr obj, emit Ev_check_niimg s)
      | Inr (New im) \<Rightarrow> bind (new_object im) (\<lambda>p. return (Some p)) (emit Ev_check_niimg s))"

definition call_clean_img :: "env \<Rightarrow> nat \<Rightarrow> state \<Rightarrow> (error + nat) \<times> state" where
  "call_clean_img E p s =
     (case clean_img E (heap s ! p) of
        Inl msg \<Rightarrow> (Inl (Collaborator msg), emit Ev_clean_img s)
      | Inr (left, cleaned) \<Rightarrow>
          new_object cleaned ((emit Ev_clean_img s)\<lparr>heap := (heap s)[p := left]\<rparr>))"

text \<open>
  Modelled from the spec: \<^verbatim>\<open>check_same_fov\<close> is imported from
  \<^verbatim>\<open>nilearn._utils.niimg_conversions\<close>, which is not among the sources. The spec
  describes it as the validation that volumes share one grid, shape and affine; the
  call sites compare \<^verbatim>\<open>shape[:3]\<close>. With \<^verbatim>\<open>raise_error=True\<close> a disagreement between
  any two of the images raises ValueError.
\<close>

definition same_fov :: "image \<Rightarrow> image \<Rightarrow> bool" where
  "same_fov a b = (take 3 (shape a) = take 3 (shape b) \<and> affine a = affine b)"

fun check_same_fov :: "image list \<Rightarrow> bool" where
  "check_same_fov [] = True"
| "check_same_fov (a # rest) = (list_all (same_fov a) rest \<and> check_same_fov rest)"

section \<open>fit\<close>

text \<open>
  Lines 394-407 of the source: the parameter checks, before anything else.
\<close>

definition fit_validate :: "env \<Rightarrow> state \<Rightarrow> (error + unit) \<times> state" where
  "fit_validate E s =
     (case check_params E (self s) of
        Some msg \<Rightarrow> (Inl (Collaborator msg), s)
      | None \<Rightarrow>
          if resampling_target (self s) \<notin> {Some ''mask'', Some ''maps'', Some ''data'', None}
          then (Inl ValueError_invalid_resampling_target, s)
          else if mask_img (self s) = None \<and> resampling_target (self s) = Some ''mask''
          then (Inl ValueError_mask_target_without_mask, s)
          else (Inr (), s))"

text \<open>
  Lines 409-417: the cleaning parameters and the report's content.
\<close>

definition fit_cleaning :: "env \<Rightarrow> state \<Rightarrow> (error + unit) \<times> state" where
  "fit_cleaning E s =
     (case sanitize_cleaning_parameters E (self s) of
        Inl msg \<Rightarrow> (Inl (Collaborator msg), s)
      | Inr kw \<Rightarrow>
          assign (\<lambda>m. m\<lparr>clean_kwargs_fitted := Present kw,
                         clean_args_fitted :=
                           Present (case clean_args m of None \<Rightarrow> [] | Some a \<Rightarrow> a),
                         report_content :=
                           Present \<lparr>description =
                                      ''This reports shows the spatial maps provided to the mask.'',
                                    warning_message = None,
                                    number_of_maps = None,
                                    content_displayed_maps = None\<rparr>\<rparr>) s)"

text \<open>
  Lines 419-437: the maps image is deep-copied, checked and cleaned; each step assigns
  \<^verbatim>\<open>self.maps_img_\<close>. A maps image that is \<^verbatim>\<open>None\<close> and got through the check fails at
  its first use. The result is the reference of the cleaned maps.
\<close>

definition fit_load_maps :: "env \<Rightarrow> state \<Rightarrow> (error + nat) \<times> state" where
  "fit_load_maps E s =
     bind (deepcopy (case priv_maps_img (self s) of Some r \<Rightarrow> Some r | None \<Rightarrow> maps_img (self s)))
       (\<lambda>c. bind (assign (\<lambda>m. m\<lparr>maps_img_fitted := Present c\<rparr>))
       (\<lambda>_. bind (call_check_niimg E c (dtype (self s)) True)
       (\<lambda>p. bind (assign (\<lambda>m. m\<lparr>maps_img_fitted := Present p\<rparr>))
       (\<lambda>_. case p of
               None \<Rightarrow> raise AttributeError
             | Some p' \<Rightarrow>
                 bind (call_clean_img E p')
                   (\<lambda>q. bind (assign (\<lambda>m. m\<lparr>maps_img_fitted := Present (Some q)\<rparr>))
                   (\<lambda>_. return q)))))) s"

text \<open>
  Lines 439-442: \<^verbatim>\<open>imgs_ = check_niimg(imgs)\<close> when images were given, and the mask,
  loaded by the base class's \<^verbatim>\<open>_load_mask\<close>. The result is \<open>(imgs_, mask_img_)\<close>.
\<close>

definition fit_load_mask :: "env \<Rightarrow> nat option \<Rightarrow> state \<Rightarrow> (error + nat option \<times> nat option) \<times> state" where
  "fit_load_mask E imgs s =
     bind (case imgs of
             None \<Rightarrow> return None
           | Some r \<Rightarrow> call_check_niimg E (Some r) None False)
       (\<lambda>imgs'. bind (\<lambda>t. case load_mask E (img_at t (mask_img (self t))) (img_at t imgs) of
                          Inl msg \<Rightarrow> (Inl (Collaborator msg), emit Ev_load_mask t)
                        | Inr None \<Rightarrow> (Inr None, emit Ev_load_mask t)
                        | Inr (Some Same) \<Rightarrow> (Inr (mask_img (self t)), emit Ev_load_mask t)
                        | Inr (Some (New im)) \<Rightarrow>
                            bind (new_object im) (\<lambda>k. return (Some k)) (emit Ev_load_mask t))
       (\<lambda>mk. bind (assign (\<lambda>m. m\<lparr>mask_img_fitted := Present mk\<rparr>))
       (\<lambda>_. return (imgs', mk)))) s"

text \<open>
  Lines 444-451: without a resampling target all the images must share one grid.
\<close>

definition fit_check_fov :: "nat \<Rightarrow> nat option \<Rightarrow> nat option \<Rightarrow> state \<Rightarrow> (error + unit) \<times> state" where
  "fit_check_fov q mk imgs' s =
     (if resampling_target (self s) = None
      then (if check_same_fov
                 ([heap s ! q]
                  @ (case mk of None \<Rightarrow> [] | Some k \<Rightarrow> [heap s ! k])
                  @ (case imgs' of None \<Rightarrow> [] | Some d \<Rightarrow> [heap s ! d]))
            then (Inr (), s)
            else (Inl ValueError_fov_mismatch, s))
      else (Inr (), s))"

text \<open>
  Lines 453-495: the reference image, and the resampling of the maps (linear) and of the
  mask (nearest) to it. The result is the reference of the maps after this step.
\<close>

definition fit_ref_img :: "nat \<Rightarrow> nat option \<Rightarrow> nat option \<Rightarrow> state \<Rightarrow> nat option" where
  "fit_ref_img q mk imgs' s =
     (if resampling_target (self s) = Some ''data'' \<and> imgs' \<noteq> None then imgs'
      else if resampling_target (self s) = Some ''mask'' then mk
      else if resampling_target (self s) = Some ''maps'' then Some q
      else None)"

definition fit_resample_maps :: "env \<Rightarrow> nat \<Rightarrow> nat \<Rightarrow> state \<Rightarrow> (error + nat) \<times> state" where
  "fit_resample_maps E rf q s =
     (if resampling_target (self s) \<noteq> Some ''maps'' \<and> \<not> check_same_fov [heap s ! rf, heap s ! q]
      then bind (call_img (Ev_resample_img Maps Linear)
                   (\<lambda>t. resample_img E (heap t ! q) Linear
                          (take 3 (shape (heap t ! rf))) (affine (heap t ! rf))))
             (\<lambda>q'. bind (assign (\<lambda>m. m\<lparr>maps_img_fitted := Present (Some q')\<rparr>))
             (\<lambda>_. return q')) s
      else (Inr q, s))"

definition fit_resample_mask :: "env \<Rightarrow> nat \<Rightarrow> nat option \<Rightarrow> state \<Rightarrow> (error + unit) \<times> state" where
  "fit_resample_mask E rf mk s =
     (case mk of
        None \<Rightarrow> (Inr (), s)
      | Some k \<Rightarrow>
          if \<not> check_same_fov [heap s ! rf, heap s ! k]
          then bind (call_img (Ev_resample_img Mask Nearest)
                       (\<lambda>t. resample_img E (heap t ! k) Nearest
                              (take 3 (shape (heap t ! rf))) (affine (heap t ! rf))))
                 (\<lambda>k'. bind (assign (\<lambda>m. m\<lparr>mask_img_fitted := Present (Some k')\<rparr>))
                 (\<lambda>_. call_check Ev_load_mask_img (\<lambda>t. load_mask_img E (heap t ! k')))) s
          else (Inr (), s))"

definition fit_resample :: "env \<Rightarrow> nat \<Rightarrow> nat option \<Rightarrow> nat option \<Rightarrow> state \<Rightarrow> (error + nat) \<times> state" where
  "fit_resample E q mk imgs' s =
     (case fit_ref_img q mk imgs' s of
        None \<Rightarrow> (Inr q, s)
      | Some rf \<Rightarrow>
          bind (fit_resample_maps E rf q)
            (\<lambda>q'. bind (fit_resample_mask E rf mk)
            (\<lambda>_. return q')) s)"

text \<open>
  Lines 497-516: the data kept for the report, and, last, the number of maps.
  \<^verbatim>\<open>shape[3]\<close> of an image with fewer than four dimensions raises IndexError.
\<close>

definition fit_reporting_data :: "env \<Rightarrow> nat option \<Rightarrow> state \<Rightarrow> (error + unit) \<times> state" where
  "fit_reporting_data E imgs s =
     (if reports (self s)
      then bind (assign (\<lambda>m. m\<lparr>reporting_data :=
                   Present (Some \<lparr>rd_maps_image = (case maps_img_fitted m of Present x \<Rightarrow> x | Absent \<Rightarrow> None),
                                  rd_mask = (case mask_img_fitted m of Present x \<Rightarrow> x | Absent \<Rightarrow> None),
                                  rd_dim = None,
                                  rd_img = imgs\<rparr>)\<rparr>))
             (\<lambda>_. case imgs of
                     None \<Rightarrow> return ()
                   | Some r \<Rightarrow>
                       (\<lambda>t. case compute_middle_image E (heap t ! r) of
                               Inl msg \<Rightarrow> (Inl (Collaborator msg), emit Ev_compute_middle_image t)
                             | Inr (im, dims) \<Rightarrow>
                                 bind (new_object im)
                                   (\<lambda>i. assign (\<lambda>m. m\<lparr>reporting_data :=
                                           (case reporting_data m of
                                              Present (Some rd) \<Rightarrow>
                                                Present (Some (rd\<lparr>rd_img := Some i, rd_dim := Some dims\<rparr>))
                                            | other \<Rightarrow> other)\<rparr>))
                                   (emit Ev_compute_middle_image t))) s
      else assign (\<lambda>m. m\<lparr>reporting_data := Present None\<rparr>) s)"

definition fit_n_elements :: "nat \<Rightarrow> state \<Rightarrow> (error + unit) \<times> state" where
  "fit_n_elements q s =
     (if length (shape (heap s ! q)) \<le> 3 then (Inl IndexError, s)
      else assign (\<lambda>m. m\<lparr>n_elements_fitted := Present (shape (heap s ! q) ! 3)\<rparr>) s)"

text \<open>
  \<^verbatim>\<open>fit(self, imgs=None, y=None)\<close>. It returns \<^verbatim>\<open>self\<close>: the masker of the state it
  returns.
\<close>

definition fit :: "env \<Rightarrow> nat option \<Rightarrow> state \<Rightarrow> (error + unit) \<times> state" where
  "fit E imgs s =
     bind (fit_validate E)
       (\<lambda>_. bind (fit_cleaning E)
       (\<lambda>_. bind (fit_load_maps E)
       (\<lambda>q. bind (fit_load_mask E imgs)
       (\<lambda>(imgs', mk). bind (fit_check_fov q mk imgs')
       (\<lambda>_. bind (fit_resample E q mk imgs')
       (\<lambda>q'. bind (fit_reporting_data E imgs)
       (\<lambda>_. fit_n_elements q'))))))) s"

definition sklearn_is_fitted :: "masker \<Rightarrow> bool" where
  "sklearn_is_fitted m = (maps_img_fitted m \<noteq> Absent \<and> n_elements_fitted m \<noteq> Absent)"

text \<open>
  \<^verbatim>\<open>check_is_fitted(self)\<close> of scikit-learn asks \<^verbatim>\<open>__sklearn_is_fitted__\<close> (lines 518-519)
  and raises NotFittedError when it answers no.
\<close>

definition check_is_fitted :: "state \<Rightarrow> (error + unit) \<times> state" where
  "check_is_fitted s =
     (if sklearn_is_fitted (self s) then (Inr (), s) else (Inl NotFittedError, s))"

section \<open>transform\<close>

text \<open>
  Lines 592-593: the locals \<^verbatim>\<open>mask_img_\<close> and \<^verbatim>\<open>maps_img_\<close> are references to the
  fitted objects, not copies.
\<close>

definition transform_locals :: "state \<Rightarrow> (error + nat option \<times> nat option) \<times> state" where
  "transform_locals s =
     (case mask_img_fitted (self s) of
        Absent \<Rightarrow> (Inl AttributeError, s)
      | Present mk \<Rightarrow>
          (case maps_img_fitted (self s) of
             Absent \<Rightarrow> (Inl AttributeError, s)
           | Present c \<Rightarrow> (Inr (mk, c), s)))"

definition warn :: "string \<Rightarrow> state \<Rightarrow> (error + unit) \<times> state" where
  "warn msg s = (Inr (), emit (Ev_warn msg) s)"

text \<open>
  Lines 595-652. Without a resampling target the grids must agree. With the target
  "data" the maps and the mask are resampled to the grid of the images when it differs,
  with a warning each; the resampled images are bound to the locals only. Any other
  target leaves the locals as they are. A \<^verbatim>\<open>maps_img_\<close> that is \<^verbatim>\<open>None\<close> (left by a
  fit that failed on a missing maps image) fails at its first use, which in every
  branch comes before any resampling or extraction; that is the last case of
  \<open>transform_prepare\<close> (the checked images themselves are never \<^verbatim>\<open>None\<close>).
\<close>

definition transform_resample_maps :: "env \<Rightarrow> nat \<Rightarrow> nat \<Rightarrow> state \<Rightarrow> (error + nat) \<times> state" where
  "transform_resample_maps E d q s =
     (if \<not> check_same_fov [heap s ! d, heap s ! q]
      then bind (warn ''Resampling maps at transform time...'')
             (\<lambda>_. call_img (Ev_resample_img Maps Linear)
                     (\<lambda>t. resample_img E (heap t ! q) Linear
                            (take 3 (shape (heap t ! d))) (affine (heap t ! d)))) s
      else (Inr q, s))"

definition transform_resample_mask :: "env \<Rightarrow> nat \<Rightarrow> nat option \<Rightarrow> state \<Rightarrow> (error + nat option) \<times> state" where
  "transform_resample_mask E d mk s =
     (case mk of
        None \<Rightarrow> (Inr None, s)
      | Some k \<Rightarrow>
          if \<not> check_same_fov [heap s ! d, heap s ! k]
          then bind (warn ''Resampling mask at transform time...'')
                 (\<lambda>_. bind (call_img (Ev_resample_img Mask Nearest)
                               (\<lambda>t. resample_img E (heap t ! k) Nearest
                                      (take 3 (shape (heap t ! d))) (affine (heap t ! d))))
                 (\<lambda>k'. return (Some k'))) s
          else (Inr (Some k), s))"

definition transform_prepare ::
  "env \<Rightarrow> nat \<Rightarrow> nat option \<Rightarrow> nat option \<Rightarrow> state \<Rightarrow> (error + nat option \<times> nat) \<times> state" where
  "transform_prepare E imgs mk c s =
     bind (call_check_niimg E (Some imgs) None True)
       (\<lambda>imgs'. case (imgs', c) of
               (Some d, Some q) \<Rightarrow>
                 (\<lambda>t. if resampling_target (self t) = None
                       then (if check_same_fov
                                  ([heap t ! q, heap t ! d]
                                   @ (case mk of None \<Rightarrow> [] | Some k \<Rightarrow> [heap t ! k]))
                             then (Inr (mk, q), t)
                             else (Inl ValueError_fov_mismatch, t))
                       else if resampling_target (self t) = Some ''data''
                       then bind (transform_resample_maps E d q)
                              (\<lambda>q'. bind (transform_resample_mask E d mk)
                              (\<lambda>mk'. return (mk', q'))) t
                       else (Inr (mk, q), t))
             | _ \<Rightarrow> raise AttributeError) s"

text \<open>
  Lines 654-669, the overlap check. \<^verbatim>\<open>get_data\<close> hands out the data array of an
  in-memory image itself, not a copy, so \<^verbatim>\<open>data[data < eps] = 0.0\<close> writes into the
  image object the local \<^verbatim>\<open>maps_img_\<close> refers to. Then
  \<^verbatim>\<open>np.any(np.sum(data > 0.0, axis=3) > 1)\<close>: some voxel has more than one positive value.
\<close>

definition zero_low_values :: "real \<Rightarrow> real list list \<Rightarrow> real list list" where
  "zero_low_values eps d = map (map (\<lambda>v. if v < eps then 0 else v)) d"

definition overlap_detected :: "real list list \<Rightarrow> bool" where
  "overlap_detected d = list_ex (\<lambda>row. 1 < length (filter (\<lambda>v. 0 < v) row)) d"

definition write_data :: "nat \<Rightarrow> real list list \<Rightarrow> state \<Rightarrow> state" where
  "write_data r d s = emit (Ev_write_data r) (s\<lparr>heap := (heap s)[r := (heap s ! r)\<lparr>voxels := d\<rparr>]\<rparr>)"

definition transform_check_overlap :: "nat \<Rightarrow> state \<Rightarrow> (error + unit) \<times> state" where
  "transform_check_overlap q s =
     (if \<not> allow_overlap (self s)
      then bind (\<lambda>t. (Inr (), emit (Ev_get_data q) t))
             (\<lambda>_. bind (\<lambda>t. case data_dtype (heap t ! q) of
                               Float f \<Rightarrow>
                                 (Inr (), write_data q
                                            (zero_low_values (finfo_eps f) (voxels (heap t ! q))) t)
                             | Integer \<Rightarrow> (Inr (), t))
             (\<lambda>_. (\<lambda>t. if overlap_detected (voxels (heap t ! q))
                        then (Inl ValueError_overlap, t)
                        else (Inr (), t)))) s
      else (Inr (), s))"

text \<open>
  Lines 671-711: the target grid handed to the extraction, the cleaning arguments, and
  the call of \<^verbatim>\<open>filter_and_extract\<close> on the images as given, with the local maps and mask.
\<close>

definition transform_extract ::
  "env \<Rightarrow> nat \<Rightarrow> signals option \<Rightarrow> nat list option \<Rightarrow> nat option \<Rightarrow> nat \<Rightarrow> state
    \<Rightarrow> (error + signals) \<times> state" where
  "transform_extract E imgs confounds sample_mask mk q s =
     (let target_shape =
            (if resampling_target (self s) \<noteq> Some ''data''
             then Some (take 3 (shape (heap s ! q))) else None);
          target_affine =
            (if resampling_target (self s) \<noteq> Some ''data''
             then Some (affine (heap s ! q)) else None)
      in case clean_args_fitted (self s) of
           Absent \<Rightarrow> (Inl AttributeError, s)
         | Present ca \<Rightarrow>
             (case (if clean_kwargs (self s) \<noteq> [] then clean_kwargs_fitted (self s) else Present ca) of
                Absent \<Rightarrow> (Inl AttributeError, s)
              | Present ck \<Rightarrow>
                  (case filter_and_extract E (heap s ! imgs) (heap s ! q) (img_at s mk) (self s)
                          target_shape target_affine ck confounds sample_mask of
                     Inl msg \<Rightarrow> (Inl (Collaborator msg), emit Ev_filter_and_extract s)
                   | Inr region_signals \<Rightarrow> (Inr region_signals, emit Ev_filter_and_extract s))))"

definition transform_single_imgs ::
  "env \<Rightarrow> nat \<Rightarrow> signals option \<Rightarrow> nat list option \<Rightarrow> state \<Rightarrow> (error + signals) \<times> state" where
  "transform_single_imgs E imgs confounds sample_mask s =
     bind check_is_fitted
       (\<lambda>_. bind transform_locals
       (\<lambda>(mk, c). bind (transform_prepare E imgs mk c)
       (\<lambda>(mk', q'). bind (transform_check_overlap q')
       (\<lambda>_. transform_extract E imgs confounds sample_mask mk' q')))) s"

text \<open>
  Modelled from the spec: \<^verbatim>\<open>transform\<close> is inherited from the base masker, which is
  not among the sources. The spec gives it the behaviour of \<^verbatim>\<open>transform_single_imgs\<close>:
  it requires a prior fit, re-checks the grids, and delegates to extraction and cleaning.
\<close>

definition transform ::
  "env \<Rightarrow> nat \<Rightarrow> signals option \<Rightarrow> nat list option \<Rightarrow> state \<Rightarrow> (error + signals) \<times> state" where
  "transform E imgs confounds sample_mask s =
     bind check_is_fitted
       (\<lambda>_. transform_single_imgs E imgs confounds sample_mask) s"

text \<open>
  Lines 521-547: \<^verbatim>\<open>return self.fit(imgs).transform(imgs, confounds=..., sample_mask=...)\<close>.
\<close>

definition fit_transform ::
  "env \<Rightarrow> nat \<Rightarrow> signals option \<Rightarrow> nat list option \<Rightarrow> state \<Rightarrow> (error + signals) \<times> state" where
  "fit_transform E imgs confounds sample_mask s =
     bind (fit E (Some imgs)) (\<lambda>_. transform E imgs confounds sample_mask) s"

text \<open>
  The sequential composition in the spec's words: call fit on the images; when it has
  returned, call transform on the same masker with the same images, confounds and
  sample mask.
\<close>

definition fit_then_transform ::
  "env \<Rightarrow> nat \<Rightarrow> signals option \<Rightarrow> nat list option \<Rightarrow> state \<Rightarrow> (error + signals) \<times> state" where
  "fit_then_transform E imgs confounds sample_mask s =
     (let (fitted, s1) = fit E (Some imgs) s
      in case fitted of
           Inl e \<Rightarrow> (Inl e, s1)
         | Inr _ \<Rightarrow> transform E imgs confounds sample_mask s1)"

section \<open>inverse_transform\<close>

text \<open>
  Lines 713-740. The result is the reference of the image built from the signals.
\<close>

definition inverse_transform :: "env \<Rightarrow> signals \<Rightarrow> state \<Rightarrow> (error + nat) \<times> state" where
  "inverse_transform E region_signals s =
     bind check_is_fitted
       (\<lambda>_. bind (\<lambda>t. case check_array E region_signals of
                        Inl msg \<Rightarrow> (Inl (Collaborator msg), t)
                      | Inr sig \<Rightarrow> (Inr sig, t))
       (\<lambda>sig. (\<lambda>t. case maps_img_fitted (self t) of
                      Present (Some q) \<Rightarrow>
                        (case mask_img_fitted (self t) of
                           Absent \<Rightarrow> (Inl AttributeError, t)
                         | Present mk \<Rightarrow>
                             call_img Ev_signals_to_img_maps
                               (\<lambda>u. signals_to_img_maps E sig (heap u ! q) (img_at u mk)) t)
                    | _ \<Rightarrow> (Inl AttributeError, t)))) s"

section \<open>The report\<close>










section \<open>A concrete setting\<close>

text \<open>
  Collaborators that behave as the library's do on well-formed in-memory images, used to
  run the model on concrete inputs. \<open>check_niimg\<close> hands back the image it is given,
  or a new one with a fourth axis when that is asked for and missing; cleaning has
  nothing to do on finite data; the mask is the mask parameter itself; resampling moves
  the data to the target grid (cut or padded with zeros); the extraction returns one row
  per time point and one column per map.
\<close>

definition pad_voxels :: "nat \<Rightarrow> real list list \<Rightarrow> real list list" where
  "pad_voxels n d = take n (d @ replicate n (replicate (length (hd d)) 0))"

definition env0 :: env where
  "env0 =
     \<lparr>check_params = (\<lambda>_. None),
      sanitize_cleaning_parameters = (\<lambda>_. Inr []),
      check_niimg = (\<lambda>io _ four.
         case io of
           None \<Rightarrow> Inl ''TypeError: not a niimg''
         | Some im \<Rightarrow>
             Inr (if four \<and> length (shape im) = 3 then New (im\<lparr>shape := shape im @ [1]\<rparr>)
                  else Same)),
      clean_img = (\<lambda>im. Inr (im, im)),
      load_mask = (\<lambda>mo _. Inr (case mo of None \<Rightarrow> None | Some _ \<Rightarrow> Some Same)),
      resample_img = (\<lambda>im _ sh af.
         Inr (im\<lparr>shape := sh @ drop 3 (shape im), affine := af,
                 voxels := pad_voxels (prod_list sh) (voxels im)\<rparr>)),
      load_mask_img = (\<lambda>_. None),
      compute_middle_image = (\<lambda>im. Inr (im, length (shape im))),
      filter_and_extract = (\<lambda>imgs maps _ _ _ _ _ _ _.
         Inr (replicate (last (shape imgs)) (replicate (last (shape maps)) 0))),
      check_array = Inr,
      signals_to_img_maps = (\<lambda>_ maps _. Inr maps),
      is_matplotlib_installed = True,
      plot_component = (\<lambda>maps _ c.
         if 0 \<le> c \<and> c < int (last (shape maps)) then Inr ''display'' else Inl ''IndexError'')\<rparr>"

definition new_masker :: masker where
  "new_masker =
     \<lparr>maps_img = None, mask_img = None, allow_overlap = True, dtype = None,
      resampling_target = Some ''data'', keep_masked_maps = True, reports = True,
      cleaning = [], clean_args = None, clean_kwargs = [], priv_maps_img = None,
      maps_img_fitted = Absent, mask_img_fitted = Absent, n_elements_fitted = Absent,
      clean_args_fitted = Absent, clean_kwargs_fitted = Absent, report_content = Absent,
      reporting_data = Absent, displayed_maps = Absent\<rparr>"

definition identity_affine :: "int list" where
  "identity_affine = [1, 0, 0, 0, 0, 1, 0, 0, 0, 0, 1, 0, 0, 0, 0, 1]"

text \<open>
  Two voxels. \<open>maps_apart\<close>: two maps, each on its own voxel, with one negative value.
  \<open>maps_shared\<close>: two maps that are both positive on the first voxel. \<open>maps_three\<close>:
  three maps on a grid of three voxels. \<open>data_img\<close>: three time points on the grid of
  the first two.
\<close>

definition maps_apart :: image where
  "maps_apart = \<lparr>shape = [1, 2, 1, 2], affine = identity_affine, data_dtype = Float Float64,
                  voxels = [[1 / 2, - (1 / 4)], [0, 1]]\<rparr>"

definition maps_shared :: image where
  "maps_shared = \<lparr>shape = [1, 2, 1, 2], affine = identity_affine, data_dtype = Float Float64,
                   voxels = [[1 / 2, 1 / 4], [0, 1]]\<rparr>"

definition maps_three :: image where
  "maps_three = \<lparr>shape = [1, 3, 1, 3], affine = identity_affine, data_dtype = Float Float64,
                  voxels = [[1, 0, 0], [0, 1, 0], [0, 0, 1]]\<rparr>"

definition data_img :: image where
  "data_img = \<lparr>shape = [1, 2, 1, 3], affine = identity_affine, data_dtype = Float Float64,
                voxels = [[1, 2, 3], [4, 5, 6]]\<rparr>"

definition start :: "masker \<Rightarrow> image list \<Rightarrow> state" where
  "start m h = \<lparr>self = m, heap = h, trace = []\<rparr>"

definition strict_masker :: masker where
  "strict_masker = new_masker\<lparr>maps_img := Some 0, allow_overlap := False\<rparr>"

definition apart_start :: state where
  "apart_start = start strict_masker [maps_apart, data_img]"

definition apart_fitted :: state where
  "apart_fitted = snd (fit env0 (Some 1) apart_start)"

definition shared_start :: state where
  "shared_start = start strict_masker [maps_shared, data_img]"

definition shared_fitted :: state where
  "shared_fitted = snd (fit env0 (Some 1) shared_start)"

definition shared_lenient :: state where
  "shared_lenient = shared_fitted\<lparr>self := (self shared_fitted)\<lparr>allow_overlap := True\<rparr>\<rparr>"




text \<open>
  A masker with a mask, and images on a grid of three voxels, so that fit resamples both
  the maps and the mask; then images on two voxels again for transform.
\<close>

definition mask_two :: image where
  "mask_two = \<lparr>shape = [1, 2, 1], affine = identity_affine, data_dtype = Integer,
                voxels = [[1], [1]]\<rparr>"

definition data_wide :: image where
  "data_wide = \<lparr>shape = [1, 3, 1, 2], affine = identity_affine, data_dtype = Float Float64,
                 voxels = [[1, 2], [3, 4], [5, 6]]\<rparr>"

definition masked_start :: state where
  "masked_start =
     start (new_masker\<lparr>maps_img := Some 0, mask_img := Some 1\<rparr>)
       [maps_apart, mask_two, data_wide, data_img]"

definition masked_fitted :: state where
  "masked_fitted = snd (fit env0 (Some 2) masked_start)"

section \<open>Properties of a run\<close>

text \<open>
  A resampling event is as it should be when the maps went through linear and the mask
  through nearest-neighbour interpolation.
\<close>

definition interpolation_ok :: "event \<Rightarrow> bool" where
  "interpolation_ok ev =
     (case ev of
        Ev_resample_img Maps i \<Rightarrow> i = Linear
      | Ev_resample_img Mask i \<Rightarrow> i = Nearest
      | _ \<Rightarrow> True)"

text \<open>
  \<open>keeps s s'\<close>: every object that was on the heap in \<open>s\<close> is the same in \<open>s'\<close>, the
  trace only gained events with the right interpolation, and \<^verbatim>\<open>n_elements_\<close> is what it
  was.
\<close>

definition keeps :: "state \<Rightarrow> state \<Rightarrow> bool" where
  "keeps s s' \<longleftrightarrow>
     (\<exists>objs. heap s' = heap s @ objs) \<and>
     (\<exists>new. trace s' = trace s @ new \<and> list_all interpolation_ok new) \<and>
     n_elements_fitted (self s') = n_elements_fitted (self s)"

definition no_overlap_error :: "error \<Rightarrow> bool" where
  "no_overlap_error e = (e \<noteq> ValueError_overlap)"

definition fit_outcome :: "state \<Rightarrow> (error + unit) \<Rightarrow> state \<Rightarrow> bool" where
  "fit_outcome s r s' \<longleftrightarrow>
     (\<exists>objs. heap s' = heap s @ objs) \<and>
     (\<exists>new. trace s' = trace s @ new \<and> list_all interpolation_ok new) \<and>
     (r \<noteq> Inr () \<longrightarrow> n_elements_fitted (self s') = n_elements_fitted (self s)) \<and>
     r \<noteq> Inl ValueError_overlap"

text \<open>
  \<open>transform_keeps s s'\<close>: the masker is the same, no object left the heap, and the
  trace gained neither a wrong interpolation nor an extraction.
\<close>

definition transform_keeps :: "state \<Rightarrow> state \<Rightarrow> bool" where
  "transform_keeps s s' \<longleftrightarrow>
     self s' = self s \<and> length (heap s) \<le> length (heap s') \<and>
     (\<exists>new. trace s' = trace s @ new \<and>
        list_all (\<lambda>ev. interpolation_ok ev \<and> ev \<noteq> Ev_filter_and_extract) new)"


text \<open>
  The overlap the spec describes: a voxel inside the mask (every voxel when there is no
  mask) at which, once every value below machine epsilon has been set to zero, more than
  one map has a value that is not zero.
\<close>

definition in_mask :: "image option \<Rightarrow> nat \<Rightarrow> bool" where
  "in_mask msk i =
     (case msk of
        None \<Rightarrow> True
      | Some mk \<Rightarrow> i < length (voxels mk) \<and> list_ex (\<lambda>v. v \<noteq> 0) (voxels mk ! i))"

definition overlap_after_masking :: "real \<Rightarrow> image \<Rightarrow> image option \<Rightarrow> bool" where
  "overlap_after_masking eps maps msk =
     list_ex (\<lambda>i. in_mask msk i \<and>
                 1 < length (filter (\<lambda>v. v \<noteq> 0)
                           (map (\<lambda>v. if v < eps then 0 else v) (voxels maps ! i))))
       [0..<length (voxels maps)]"


section \<open>Helper lemmas\<close>

lemma keeps_refl: "keeps s s"
  by (simp add: keeps_def)

lemma keeps_trans: "keeps a b \<Longrightarrow> keeps b c \<Longrightarrow> keeps a c"
  unfolding keeps_def by (elim conjE exE) simp

lemma bind_rule:
  assumes "bind f g s = (r, s')"
    and "\<And>r1 s1. f s = (r1, s1) \<Longrightarrow> R s s1 \<and> (\<forall>e. r1 = Inl e \<longrightarrow> Q e)"
    and "\<And>x s1 r2 s2. f s = (Inr x, s1) \<Longrightarrow> g x s1 = (r2, s2) \<Longrightarrow> R s1 s2 \<and> (\<forall>e. r2 = Inl e \<longrightarrow> Q e)"
    and "\<And>a b c. R a b \<Longrightarrow> R b c \<Longrightarrow> R a c"
  shows "R s s' \<and> (\<forall>e. r = Inl e \<longrightarrow> Q e)"
proof (cases "f s")
  case (Pair r1 s1)
  show ?thesis
  proof (cases r1)
    case (Inl e)
    with Pair assms(1) have "r = Inl e" "s' = s1" by (simp_all add: bind_def)
    with assms(2)[OF Pair] Inl show ?thesis by simp
  next
    case (Inr x)
    with Pair assms(1) have g: "g x s1 = (r, s')" by (simp add: bind_def)
    from assms(2)[OF Pair] have "R s s1" by simp
    moreover from assms(3)[OF _ g] Pair Inr have "R s1 s' \<and> (\<forall>e. r = Inl e \<longrightarrow> Q e)" by simp
    ultimately show ?thesis using assms(4) by blast
  qed
qed

lemmas prim_defs = bind_def return_def raise_def emit_def assign_def new_object_def call_img_def
  call_check_def deepcopy_def warn_def call_check_niimg_def call_clean_img_def

lemma fit_validate_keeps:
  "fit_validate E s = (r, s') \<Longrightarrow> keeps s s' \<and> (\<forall>e. r = Inl e \<longrightarrow> no_overlap_error e)"
  by (auto simp: fit_validate_def keeps_def no_overlap_error_def split: option.splits if_splits)

lemma fit_cleaning_keeps:
  "fit_cleaning E s = (r, s') \<Longrightarrow> keeps s s' \<and> (\<forall>e. r = Inl e \<longrightarrow> no_overlap_error e)"
  by (auto simp: fit_cleaning_def keeps_def no_overlap_error_def prim_defs split: sum.splits)

lemma fit_load_maps_keeps:
  "fit_load_maps E s = (r, s') \<Longrightarrow> keeps s s' \<and> (\<forall>e. r = Inl e \<longrightarrow> no_overlap_error e)"
  by (auto simp: fit_load_maps_def keeps_def no_overlap_error_def prim_defs interpolation_ok_def
      list_update_append nth_append
      split: sum.splits option.splits returned.splits prod.splits)

lemma fit_load_mask_keeps:
  "fit_load_mask E imgs s = (r, s') \<Longrightarrow> keeps s s' \<and> (\<forall>e. r = Inl e \<longrightarrow> no_overlap_error e)"
  by (auto simp: fit_load_mask_def keeps_def no_overlap_error_def prim_defs interpolation_ok_def
      split: sum.splits option.splits returned.splits)

lemma fit_check_fov_keeps:
  "fit_check_fov q mk imgs' s = (r, s') \<Longrightarrow> keeps s s' \<and> (\<forall>e. r = Inl e \<longrightarrow> no_overlap_error e)"
  by (auto simp: fit_check_fov_def keeps_def no_overlap_error_def split: if_splits)

lemma fit_resample_maps_keeps:
  "fit_resample_maps E rf q s = (r, s') \<Longrightarrow> keeps s s' \<and> (\<forall>e. r = Inl e \<longrightarrow> no_overlap_error e)"
  by (auto simp: fit_resample_maps_def keeps_def no_overlap_error_def prim_defs interpolation_ok_def
      split: sum.splits if_splits)

lemma fit_resample_mask_keeps:
  "fit_resample_mask E rf mk s = (r, s') \<Longrightarrow> keeps s s' \<and> (\<forall>e. r = Inl e \<longrightarrow> no_overlap_error e)"
  by (auto simp: fit_resample_mask_def keeps_def no_overlap_error_def prim_defs interpolation_ok_def
      split: sum.splits if_splits option.splits)

lemma return_keeps:
  "return x s = (r, s') \<Longrightarrow> keeps s s' \<and> (\<forall>e. r = Inl e \<longrightarrow> no_overlap_error e)"
  by (auto simp: return_def keeps_def)

lemma fit_resample_keeps:
  assumes "fit_resample E q mk imgs' s = (r, s')"
  shows "keeps s s' \<and> (\<forall>e. r = Inl e \<longrightarrow> no_overlap_error e)"
proof (cases "fit_ref_img q mk imgs' s")
  case None
  with assms show ?thesis by (auto simp: fit_resample_def keeps_refl)
next
  case (Some rf)
  with assms have b: "bind (fit_resample_maps E rf q)
            (\<lambda>q'. bind (fit_resample_mask E rf mk) (\<lambda>_. return q')) s = (r, s')"
    by (simp add: fit_resample_def)
  show ?thesis
    by (rule bind_rule[OF b fit_resample_maps_keeps],
        assumption,
        erule bind_rule[OF _ fit_resample_mask_keeps], assumption,
        erule return_keeps, (erule (1) keeps_trans)+)
qed

lemma fit_reporting_data_keeps:
  "fit_reporting_data E imgs s = (r, s') \<Longrightarrow> keeps s s' \<and> (\<forall>e. r = Inl e \<longrightarrow> no_overlap_error e)"
  by (auto simp: fit_reporting_data_def keeps_def no_overlap_error_def prim_defs interpolation_ok_def
      split: sum.splits if_splits option.splits attr.splits prod.splits)

lemma fit_n_elements_frame:
  "fit_n_elements q s = (r, s') \<Longrightarrow>
     heap s' = heap s \<and> trace s' = trace s \<and> r \<noteq> Inl ValueError_overlap \<and>
     (r \<noteq> Inr () \<longrightarrow> s' = s) \<and>
     (r = Inr () \<longrightarrow> 3 < length (shape (heap s ! q)) \<and>
        s' = s\<lparr>self := (self s)\<lparr>n_elements_fitted := Present (shape (heap s ! q) ! 3)\<rparr>\<rparr>)"
  by (auto simp: fit_n_elements_def prim_defs split: if_splits)

lemma fit_n_elements_keeps:
  assumes "fit_n_elements q s = (r, s')"
  shows "(\<exists>objs. heap s' = heap s @ objs) \<and>
         (\<exists>new. trace s' = trace s @ new \<and> list_all interpolation_ok new) \<and>
         (r \<noteq> Inr () \<longrightarrow> n_elements_fitted (self s') = n_elements_fitted (self s)) \<and>
         r \<noteq> Inl ValueError_overlap"
  using fit_n_elements_frame[OF assms] by auto

lemma keeps_outcome: "keeps s s' \<Longrightarrow> (\<forall>e. r = Inl e \<longrightarrow> no_overlap_error e) \<Longrightarrow> r \<noteq> Inr () \<Longrightarrow> fit_outcome s r s'"
  by (auto simp: keeps_def fit_outcome_def no_overlap_error_def)

lemma keeps_then_outcome: "keeps s s1 \<Longrightarrow> fit_outcome s1 r s' \<Longrightarrow> fit_outcome s r s'"
  unfolding keeps_def fit_outcome_def by (elim conjE exE) simp

lemma bind_outcome:
  assumes b: "bind f g s = (r, s')"
    and f: "\<And>r1 s1. f s = (r1, s1) \<Longrightarrow> keeps s s1 \<and> (\<forall>e. r1 = Inl e \<longrightarrow> no_overlap_error e)"
    and g: "\<And>x s1. f s = (Inr x, s1) \<Longrightarrow> g x s1 = (r, s') \<Longrightarrow> fit_outcome s1 r s'"
  shows "fit_outcome s r s'"
proof (cases "f s")
  case (Pair r1 s1)
  show ?thesis
  proof (cases r1)
    case (Inl e)
    with Pair b have "r = Inl e" "s' = s1" by (simp_all add: bind_def)
    with f[OF Pair] Inl show ?thesis by (auto intro: keeps_outcome)
  next
    case (Inr x)
    with Pair b have "g x s1 = (r, s')" by (simp add: bind_def)
    with g Pair Inr have "fit_outcome s1 r s'" by simp
    with f[OF Pair] show ?thesis by (auto intro: keeps_then_outcome)
  qed
qed

lemma fit_has_outcome:
  assumes "fit E imgs s = (r, s')"
  shows "fit_outcome s r s'"
  using assms unfolding fit_def
  apply (rule bind_outcome)
  apply (erule fit_validate_keeps)
  apply (erule bind_outcome, erule fit_cleaning_keeps)
  apply (erule bind_outcome, erule fit_load_maps_keeps)
  apply (erule bind_outcome, erule fit_load_mask_keeps)
  apply (clarsimp)
  apply (erule bind_outcome, erule fit_check_fov_keeps)
  apply (erule bind_outcome, erule fit_resample_keeps)
  apply (erule bind_outcome, erule fit_reporting_data_keeps)
  apply (drule fit_n_elements_keeps)
  apply (simp add: fit_outcome_def)
  done

lemma bind_InrE:
  assumes "bind f g s = (Inr y, s')"
  obtains x s1 where "f s = (Inr x, s1)" and "g x s1 = (Inr y, s')"
  using assms by (auto simp: bind_def split: prod.splits sum.splits)

lemma fit_validate_success: "fit_validate E s = (Inr x, s') \<Longrightarrow> s' = s"
  by (auto simp: fit_validate_def split: option.splits if_splits)


lemma fit_cleaning_success:
  "fit_cleaning E s = (Inr x, s') \<Longrightarrow> heap s' = heap s"
  by (auto simp: fit_cleaning_def prim_defs split: sum.splits)

lemma fit_load_maps_success:
  "fit_load_maps E s = (Inr q, s') \<Longrightarrow>
     maps_img_fitted (self s') = Present (Some q) \<and> length (heap s) \<le> q \<and> q < length (heap s')"
  by (auto simp: fit_load_maps_def prim_defs
      split: sum.splits option.splits returned.splits prod.splits)

lemma fit_load_mask_success:
  "fit_load_mask E imgs s = (Inr (imgs', mk), s') \<Longrightarrow>
     maps_img_fitted (self s') = maps_img_fitted (self s) \<and>
     mask_img_fitted (self s') = Present mk"
  by (auto simp: fit_load_mask_def prim_defs split: sum.splits option.splits returned.splits)

lemma fit_check_fov_same: "fit_check_fov q mk imgs' s = (r, s') \<Longrightarrow> s' = s"
  by (auto simp: fit_check_fov_def split: if_splits)

lemma fit_resample_maps_success:
  "fit_resample_maps E rf q s = (Inr q', s') \<Longrightarrow>
     maps_img_fitted (self s) = Present (Some q) \<Longrightarrow> q < length (heap s) \<Longrightarrow>
     maps_img_fitted (self s') = Present (Some q') \<and> q' < length (heap s') \<and>
     (q' = q \<or> length (heap s) \<le> q') \<and>
     mask_img_fitted (self s') = mask_img_fitted (self s)"
  by (auto simp: fit_resample_maps_def prim_defs split: sum.splits if_splits)

lemma fit_resample_mask_success:
  "fit_resample_mask E rf mk s = (Inr x, s') \<Longrightarrow>
     mask_img_fitted (self s) = Present mk \<Longrightarrow>
     maps_img_fitted (self s') = maps_img_fitted (self s) \<and>
     (\<exists>mk'. mask_img_fitted (self s') = Present mk')"
  by (auto simp: fit_resample_mask_def prim_defs split: sum.splits if_splits option.splits)

lemma fit_resample_success:
  assumes "fit_resample E q mk imgs' s = (Inr q', s')"
    and "maps_img_fitted (self s) = Present (Some q)" and "q < length (heap s)"
    and "mask_img_fitted (self s) = Present mk"
  shows "maps_img_fitted (self s') = Present (Some q') \<and> q' < length (heap s') \<and>
         (q' = q \<or> length (heap s) \<le> q') \<and>
         (\<exists>mk'. mask_img_fitted (self s') = Present mk')"
proof (cases "fit_ref_img q mk imgs' s")
  case None
  with assms show ?thesis by (auto simp: fit_resample_def)
next
  case (Some rf)
  with assms(1) have b: "bind (fit_resample_maps E rf q)
            (\<lambda>q'. bind (fit_resample_mask E rf mk) (\<lambda>_. return q')) s = (Inr q', s')"
    by (simp add: fit_resample_def)
  from b obtain q1 s1 where 1: "fit_resample_maps E rf q s = (Inr q1, s1)"
    and b2: "bind (fit_resample_mask E rf mk) (\<lambda>_. return q1) s1 = (Inr q', s')"
    by (rule bind_InrE)
  from b2 obtain x where 2: "fit_resample_mask E rf mk s1 = (Inr x, s')" and q: "q1 = q'"
    by (auto elim!: bind_InrE simp: return_def)
  note m = fit_resample_maps_success[OF 1 assms(2,3)]
  from m assms(4) have "mask_img_fitted (self s1) = Present mk" by simp
  note k = fit_resample_mask_success[OF 2 this]
  from fit_resample_maps_keeps[OF 1] fit_resample_mask_keeps[OF 2]
  have h: "length (heap s) \<le> length (heap s1)" "length (heap s1) \<le> length (heap s')"
    by (auto simp: keeps_def)
  from m k h q show ?thesis by auto
qed

lemma fit_reporting_data_success:
  "fit_reporting_data E imgs s = (r, s') \<Longrightarrow>
     maps_img_fitted (self s') = maps_img_fitted (self s) \<and>
     mask_img_fitted (self s') = mask_img_fitted (self s)"
  by (auto simp: fit_reporting_data_def prim_defs
      split: sum.splits if_splits option.splits attr.splits prod.splits)

lemma keeps_heap: "keeps s s' \<Longrightarrow> length (heap s) \<le> length (heap s') \<and> (\<forall>r < length (heap s). heap s' ! r = heap s ! r)"
  by (auto simp: keeps_def nth_append)

lemma fit_success:
  assumes "fit E imgs s = (Inr (), s')"
  shows "\<exists>q. maps_img_fitted (self s') = Present (Some q) \<and>
             length (heap s) \<le> q \<and> q < length (heap s') \<and>
             3 < length (shape (heap s' ! q)) \<and>
             n_elements_fitted (self s') = Present (shape (heap s' ! q) ! 3) \<and>
             (\<exists>mk. mask_img_fitted (self s') = Present mk)"
proof -
  from assms obtain u0 s0 where v: "fit_validate E s = (Inr u0, s0)"
    and b1: "bind (fit_cleaning E)
       (\<lambda>_. bind (fit_load_maps E)
       (\<lambda>q. bind (fit_load_mask E imgs)
       (\<lambda>(imgs', mk). bind (fit_check_fov q mk imgs')
       (\<lambda>_. bind (fit_resample E q mk imgs')
       (\<lambda>q'. bind (fit_reporting_data E imgs)
       (\<lambda>_. fit_n_elements q')))))) s0 = (Inr (), s')"
    unfolding fit_def by (rule bind_InrE)
  from b1 obtain u1 s1 where c: "fit_cleaning E s0 = (Inr u1, s1)"
    and b2: "bind (fit_load_maps E)
       (\<lambda>q. bind (fit_load_mask E imgs)
       (\<lambda>(imgs', mk). bind (fit_check_fov q mk imgs')
       (\<lambda>_. bind (fit_resample E q mk imgs')
       (\<lambda>q'. bind (fit_reporting_data E imgs)
       (\<lambda>_. fit_n_elements q'))))) s1 = (Inr (), s')"
    by (rule bind_InrE)
  from b2 obtain q s2 where lm: "fit_load_maps E s1 = (Inr q, s2)"
    and b3: "bind (fit_load_mask E imgs)
       (\<lambda>(imgs', mk). bind (fit_check_fov q mk imgs')
       (\<lambda>_. bind (fit_resample E q mk imgs')
       (\<lambda>q'. bind (fit_reporting_data E imgs)
       (\<lambda>_. fit_n_elements q')))) s2 = (Inr (), s')"
    by (rule bind_InrE)
  from b3 obtain p s3 where lk0: "fit_load_mask E imgs s2 = (Inr p, s3)"
    and b4': "(case p of (imgs', mk) \<Rightarrow> bind (fit_check_fov q mk imgs')
       (\<lambda>_. bind (fit_resample E q mk imgs')
       (\<lambda>q'. bind (fit_reporting_data E imgs)
       (\<lambda>_. fit_n_elements q')))) s3 = (Inr (), s')"
    by (rule bind_InrE)
  obtain imgs' mk where p: "p = (imgs', mk)" by (cases p)
  from lk0 p have lk: "fit_load_mask E imgs s2 = (Inr (imgs', mk), s3)" by simp
  from b4' p have b4: "bind (fit_check_fov q mk imgs')
       (\<lambda>_. bind (fit_resample E q mk imgs')
       (\<lambda>q'. bind (fit_reporting_data E imgs)
       (\<lambda>_. fit_n_elements q'))) s3 = (Inr (), s')" by simp
  from b4 obtain u4 s4 where cf: "fit_check_fov q mk imgs' s3 = (Inr u4, s4)"
    and b5: "bind (fit_resample E q mk imgs')
       (\<lambda>q'. bind (fit_reporting_data E imgs)
       (\<lambda>_. fit_n_elements q')) s4 = (Inr (), s')"
    by (rule bind_InrE)
  from b5 obtain q' s5 where rs: "fit_resample E q mk imgs' s4 = (Inr q', s5)"
    and b6: "bind (fit_reporting_data E imgs) (\<lambda>_. fit_n_elements q') s5 = (Inr (), s')"
    by (rule bind_InrE)
  from b6 obtain u6 s6 where rd: "fit_reporting_data E imgs s5 = (Inr u6, s6)"
    and ne: "fit_n_elements q' s6 = (Inr (), s')"
    by (rule bind_InrE)
  have h0: "heap s1 = heap s"
    using fit_validate_success[OF v] fit_cleaning_success[OF c] by simp
  note A = fit_load_maps_success[OF lm]
  note B = fit_load_mask_success[OF lk]
  have s4: "s4 = s3" using fit_check_fov_same[OF cf] .
  have g23: "length (heap s2) \<le> length (heap s3)"
    using fit_load_mask_keeps[OF lk] by (auto simp: keeps_def)
  have C0: "maps_img_fitted (self s4) = Present (Some q)" "q < length (heap s4)"
    "mask_img_fitted (self s4) = Present mk"
    using A B s4 g23 by auto
  note C = fit_resample_success[OF rs C0]
  have g45: "length (heap s4) \<le> length (heap s5)"
    using fit_resample_keeps[OF rs] by (auto simp: keeps_def)
  note D = fit_reporting_data_success[OF rd]
  note g56 = keeps_heap[OF conjunct1[OF fit_reporting_data_keeps[OF rd]]]
  note F = fit_n_elements_frame[OF ne]
  from C g56 have q6: "q' < length (heap s6)" "heap s6 ! q' = heap s5 ! q'" by auto
  have maps: "maps_img_fitted (self s') = Present (Some q')"
    using F C D by simp
  have fresh: "length (heap s) \<le> q'"
    using C A h0 g23 s4 by auto
  have live: "q' < length (heap s')" using F q6 by simp
  have ne': "3 < length (shape (heap s' ! q'))"
    "n_elements_fitted (self s') = Present (shape (heap s' ! q') ! 3)"
    using F by auto
  from C obtain mk' where mk': "mask_img_fitted (self s5) = Present mk'"
    by auto
  have mask: "mask_img_fitted (self s') = Present mk'" using F D mk' by simp
  from maps fresh live ne' mask show ?thesis by blast
qed

lemma transform_keeps_refl: "transform_keeps s s"
  by (simp add: transform_keeps_def)

lemma transform_keeps_trans: "transform_keeps a b \<Longrightarrow> transform_keeps b c \<Longrightarrow> transform_keeps a c"
  unfolding transform_keeps_def by (elim conjE exE) simp


lemma transform_locals_same: "transform_locals s = (r, s') \<Longrightarrow> s' = s"
  by (auto simp: transform_locals_def split: attr.splits)

lemma transform_resample_maps_keeps:
  "transform_resample_maps E d q s = (r, s') \<Longrightarrow> transform_keeps s s'"
  by (auto simp: transform_resample_maps_def transform_keeps_def prim_defs interpolation_ok_def
      split: sum.splits if_splits)

lemma transform_resample_mask_keeps:
  "transform_resample_mask E d mk s = (r, s') \<Longrightarrow> transform_keeps s s'"
  by (auto simp: transform_resample_mask_def transform_keeps_def prim_defs interpolation_ok_def
      split: sum.splits if_splits option.splits)

lemma check_niimg_call_keeps:
  "call_check_niimg E obj dt four s = (r, s') \<Longrightarrow> transform_keeps s s'"
  by (auto simp: call_check_niimg_def bind_def return_def new_object_def emit_def
      transform_keeps_def interpolation_ok_def split: sum.splits returned.splits)

lemma transform_resample_both_keeps:
  assumes "bind (transform_resample_maps E d q)
             (\<lambda>q'. bind (transform_resample_mask E d mk) (\<lambda>mk'. return (mk', q'))) s = (r, s')"
  shows "transform_keeps s s'"
proof (cases "transform_resample_maps E d q s")
  case (Pair r1 s1)
  note k1 = transform_resample_maps_keeps[OF Pair]
  show ?thesis
  proof (cases r1)
    case (Inl e)
    with Pair assms k1 show ?thesis by (simp add: bind_def)
  next
    case (Inr q')
    show ?thesis
    proof (cases "transform_resample_mask E d mk s1")
      case (Pair r2 s2)
      note k2 = transform_resample_mask_keeps[OF Pair]
      from assms \<open>transform_resample_maps E d q s = (r1, s1)\<close> Inr Pair have "s' = s2"
        by (auto simp: bind_def return_def split: sum.splits)
      with k1 k2 show ?thesis by (auto intro: transform_keeps_trans)
    qed
  qed
qed

lemma transform_prepare_keeps:
  assumes "transform_prepare E imgs mk c s = (r, s')"
  shows "transform_keeps s s'"
proof (cases "call_check_niimg E (Some imgs) None True s")
  case (Pair r1 s1)
  note k1 = check_niimg_call_keeps[OF Pair]
  show ?thesis
  proof (cases r1)
    case (Inl e)
    with Pair assms k1 show ?thesis by (simp add: transform_prepare_def bind_def)
  next
    case (Inr imgs')
    show ?thesis
    proof (cases "\<exists>d q. imgs' = Some d \<and> c = Some q")
      case False
      with Pair Inr assms have "s' = s1"
        by (auto simp: transform_prepare_def bind_def raise_def split: option.splits)
      with k1 show ?thesis by simp
    next
      case True
      then obtain d q where dq: "imgs' = Some d" "c = Some q" by blast
      show ?thesis
      proof (cases "resampling_target (self s1) = Some ''data''")
        case True
        with Pair Inr dq assms
        have "bind (transform_resample_maps E d q)
                (\<lambda>q'. bind (transform_resample_mask E d mk) (\<lambda>mk'. return (mk', q'))) s1 = (r, s')"
          by (simp add: transform_prepare_def bind_def)
        from transform_resample_both_keeps[OF this] k1 show ?thesis
          by (rule transform_keeps_trans[rotated])
      next
        case False
        with Pair Inr dq assms have "s' = s1"
          by (auto simp: transform_prepare_def bind_def split: if_splits)
        with k1 show ?thesis by simp
      qed
    qed
  qed
qed

lemma transform_prepare_target:
  "transform_prepare E imgs mk c s = (Inr (mk', q), s') \<Longrightarrow>
     resampling_target (self s) \<noteq> Some ''data'' \<Longrightarrow> mk' = mk \<and> c = Some q"
  by (auto simp: transform_prepare_def bind_def raise_def return_def call_check_niimg_def
      new_object_def emit_def
      split: sum.splits option.splits if_splits returned.splits)

lemma zeroed_positive:
  assumes "0 < eps"
  shows "filter (\<lambda>v. 0 < v) (map (\<lambda>v. if v < eps then 0 else v) row) =
         filter (\<lambda>v. v \<noteq> 0) (map (\<lambda>v. if v < eps then 0 else (v::real)) row)"
  using assms by (induction row) auto

lemma finfo_eps_pos: "0 < finfo_eps f"
  by (cases f) simp_all

lemma overlap_after_masking_detected:
  assumes "overlap_after_masking (finfo_eps f) maps msk"
  shows "overlap_detected (zero_low_values (finfo_eps f) (voxels maps))"
proof -
  from assms obtain i where i: "i < length (voxels maps)"
    and n: "1 < length (filter (\<lambda>v. v \<noteq> 0)
                 (map (\<lambda>v. if v < finfo_eps f then 0 else v) (voxels maps ! i)))"
    by (auto simp: overlap_after_masking_def list_ex_iff)
  let ?row = "map (\<lambda>v. if v < finfo_eps f then 0 else v) (voxels maps ! i)"
  from i have "?row \<in> set (zero_low_values (finfo_eps f) (voxels maps))"
    by (auto simp: zero_low_values_def intro!: image_eqI[where x = "voxels maps ! i"])
  moreover from n have "1 < length (filter (\<lambda>v. 0 < v) ?row)"
    by (simp add: zeroed_positive[OF finfo_eps_pos])
  ultimately show ?thesis
    unfolding overlap_detected_def list_ex_iff by blast
qed

lemma transform_check_overlap_allowed:
  "allow_overlap (self s) \<Longrightarrow> transform_check_overlap q s = (Inr (), s)"
  by (simp add: transform_check_overlap_def)

lemma transform_check_overlap_raises:
  assumes "\<not> allow_overlap (self s)" and "q < length (heap s)"
    and "data_dtype (heap s ! q) = Float f"
    and "overlap_detected (zero_low_values (finfo_eps f) (voxels (heap s ! q)))"
  shows "transform_check_overlap q s =
           (Inl ValueError_overlap,
            write_data q (zero_low_values (finfo_eps f) (voxels (heap s ! q))) (emit (Ev_get_data q) s))"
  using assms by (simp add: transform_check_overlap_def bind_def emit_def write_data_def)

lemma transform_extract_no_overlap_error:
  "fst (transform_extract E imgs conf sm mk q s) \<noteq> Inl ValueError_overlap"
  by (simp add: transform_extract_def Let_def split: attr.splits sum.splits)

lemma transform_prepare_no_overlap_error:
  "fst (transform_prepare E imgs mk c s) \<noteq> Inl ValueError_overlap"
  by (auto simp: transform_prepare_def transform_resample_maps_def transform_resample_mask_def
      prim_defs split: sum.splits option.splits if_splits prod.splits returned.splits)

lemma transform_single_imgs_unfold:
  assumes "sklearn_is_fitted (self s)"
    and "mask_img_fitted (self s) = Present mk"
    and "maps_img_fitted (self s) = Present c"
    and "transform_prepare E imgs mk c s = (Inr (mk', q), s1)"
  shows "transform_single_imgs E imgs conf sm s =
           bind (transform_check_overlap q)
             (\<lambda>_. transform_extract E imgs conf sm mk' q) s1"
  using assms
  by (simp add: transform_single_imgs_def check_is_fitted_def transform_locals_def bind_def)

lemma transform_allowed_no_overlap_error:
  assumes "allow_overlap (self s)"
  shows "fst (transform_single_imgs E imgs conf sm s) \<noteq> Inl ValueError_overlap"
proof (cases "sklearn_is_fitted (self s)")
  case False
  then show ?thesis
    by (simp add: transform_single_imgs_def check_is_fitted_def bind_def)
next
  case True
  show ?thesis
  proof (cases "transform_locals s")
    case (Pair r0 s0)
    then have s0: "s0 = s" by (rule transform_locals_same)
    show ?thesis
    proof (cases r0)
      case (Inl e)
      with Pair True have "e = AttributeError"
        by (auto simp: transform_locals_def split: attr.splits)
      with Pair True Inl show ?thesis
        by (simp add: transform_single_imgs_def check_is_fitted_def bind_def)
    next
      case (Inr p)
      obtain mk c where p: "p = (mk, c)" by (cases p)
      obtain r1 s1 where prep: "transform_prepare E imgs mk c s = (r1, s1)"
        by (cases "transform_prepare E imgs mk c s")
      from transform_prepare_keeps[OF prep] assms have al: "allow_overlap (self s1)"
        by (simp add: transform_keeps_def)
      show ?thesis
      proof (cases r1)
        case (Inl e)
        with transform_prepare_no_overlap_error[of E imgs mk c s] prep
        have "e \<noteq> ValueError_overlap" by simp
        with Pair True Inr p s0 prep Inl show ?thesis
          by (simp add: transform_single_imgs_def check_is_fitted_def bind_def)
      next
        case (Inr p')
        obtain mk' q where p': "p' = (mk', q)" by (cases p')
        with Pair True \<open>r0 = Inr p\<close> p s0 prep Inr al show ?thesis
          using transform_extract_no_overlap_error[of E imgs conf sm mk' q s1]
          by (simp add: transform_single_imgs_def check_is_fitted_def bind_def
              transform_check_overlap_allowed)
      qed
    qed
  qed
qed









lemma transform_eq_single:
  "transform E imgs conf sm s = transform_single_imgs E imgs conf sm s"
  by (simp add: transform_def transform_single_imgs_def check_is_fitted_def bind_def)






section \<open>Running the model on the concrete setting\<close>

lemmas fit_defs = fit_def fit_validate_def fit_cleaning_def fit_load_maps_def fit_load_mask_def
  fit_check_fov_def fit_ref_img_def fit_resample_maps_def fit_resample_mask_def fit_resample_def
  fit_reporting_data_def fit_n_elements_def img_at_def same_fov_def

lemmas transform_defs = check_is_fitted_def sklearn_is_fitted_def transform_locals_def
  transform_resample_maps_def transform_resample_mask_def transform_prepare_def
  zero_low_values_def overlap_detected_def write_data_def transform_check_overlap_def
  transform_extract_def transform_single_imgs_def transform_def img_at_def same_fov_def


lemmas setting_defs = env0_def new_masker_def identity_affine_def maps_apart_def maps_shared_def
  maps_three_def data_img_def start_def pad_voxels_def strict_masker_def mask_two_def
  data_wide_def

lemma apart_fit: "fst (fit env0 (Some 1) apart_start) = Inr ()"
  by (simp add: apart_start_def fit_defs prim_defs setting_defs)

lemma apart_fitted_heap:
  "heap apart_fitted =
     [maps_apart, data_img, maps_apart, maps_apart, data_img]"
  by (simp add: apart_fitted_def apart_start_def fit_defs prim_defs setting_defs)

lemma apart_fitted_self:
  "self apart_fitted =
     strict_masker\<lparr>maps_img_fitted := Present (Some 3), mask_img_fitted := Present None,
       n_elements_fitted := Present 2, clean_args_fitted := Present [],
       clean_kwargs_fitted := Present [],
       report_content :=
         Present \<lparr>description = ''This reports shows the spatial maps provided to the mask.'',
                  warning_message = None, number_of_maps = None, content_displayed_maps = None\<rparr>,
       reporting_data :=
         Present (Some \<lparr>rd_maps_image = Some 3, rd_mask = None, rd_dim = Some 4, rd_img = Some 4\<rparr>)\<rparr>"
  by (simp add: apart_fitted_def apart_start_def fit_defs prim_defs setting_defs)

lemma shared_fit: "fst (fit env0 (Some 1) shared_start) = Inr ()"
  by (simp add: shared_start_def fit_defs prim_defs setting_defs)

lemma shared_fitted_heap:
  "heap shared_fitted =
     [maps_shared, data_img, maps_shared, maps_shared, data_img]"
  by (simp add: shared_fitted_def shared_start_def fit_defs prim_defs setting_defs)

lemma shared_fitted_self:
  "self shared_fitted =
     strict_masker\<lparr>maps_img_fitted := Present (Some 3), mask_img_fitted := Present None,
       n_elements_fitted := Present 2, clean_args_fitted := Present [],
       clean_kwargs_fitted := Present [],
       report_content :=
         Present \<lparr>description = ''This reports shows the spatial maps provided to the mask.'',
                  warning_message = None, number_of_maps = None, content_displayed_maps = None\<rparr>,
       reporting_data :=
         Present (Some \<lparr>rd_maps_image = Some 3, rd_mask = None, rd_dim = Some 4, rd_img = Some 4\<rparr>)\<rparr>"
  by (simp add: shared_fitted_def shared_start_def fit_defs prim_defs setting_defs)

lemma shared_fitted_trace:
  "trace shared_fitted =
     [Ev_deepcopy 0, Ev_check_niimg, Ev_clean_img, Ev_check_niimg, Ev_load_mask,
      Ev_compute_middle_image]"
  by (simp add: shared_fitted_def shared_start_def fit_defs prim_defs setting_defs)





lemma masked_fitted_heap:
  "heap masked_fitted =
     [maps_apart, mask_two, data_wide, data_img, maps_apart, maps_apart,
      \<lparr>shape = [1, 3, 1, 2], affine = identity_affine, data_dtype = Float Float64,
       voxels = [[1 / 2, - (1 / 4)], [0, 1], [0, 0]]\<rparr>,
      \<lparr>shape = [1, 3, 1], affine = identity_affine, data_dtype = Integer,
       voxels = [[1], [1], [0]]\<rparr>,
      data_wide]"
  by (simp add: masked_fitted_def masked_start_def fit_defs prim_defs setting_defs)

lemma masked_fitted_self:
  "self masked_fitted =
     new_masker\<lparr>maps_img := Some 0, mask_img := Some 1,
       maps_img_fitted := Present (Some 6), mask_img_fitted := Present (Some 7),
       n_elements_fitted := Present 2, clean_args_fitted := Present [],
       clean_kwargs_fitted := Present [],
       report_content :=
         Present \<lparr>description = ''This reports shows the spatial maps provided to the mask.'',
                  warning_message = None, number_of_maps = None, content_displayed_maps = None\<rparr>,
       reporting_data :=
         Present (Some \<lparr>rd_maps_image = Some 6, rd_mask = Some 7, rd_dim = Some 4,
                        rd_img = Some 8\<rparr>)\<rparr>"
  by (simp add: masked_fitted_def masked_start_def fit_defs prim_defs setting_defs)


section \<open>The overlap check of transform\<close>

text \<open>
  Claim C1. On a fitted masker with \<^verbatim>\<open>allow_overlap=False\<close>, transform raises the
  overlap ValueError whenever some voxel inside the mask has, once the values below
  machine epsilon are set to zero, a non-zero value in more than one map, and it does so
  before any extraction: the state it leaves is the one reached after the grid checks,
  plus the read and the zeroing of the maps' data, and the trace has gained no
  extraction. With \<^verbatim>\<open>allow_overlap=True\<close> transform goes straight on to the extraction
  and never raises the overlap error.

  \<open>s1\<close>, \<open>q\<close> and \<open>mk'\<close> are the state, the maps and the mask that lines 595-652 hand to
  the check: the fitted ones, or their resampled copies. The maps are of a float dtype,
  the only ones that have a machine epsilon. The check itself looks at every voxel of
  the maps, inside the mask or not.
\<close>

theorem overlap_check_before_extraction:
  assumes fitted: "sklearn_is_fitted (self s)"
    and mk: "mask_img_fitted (self s) = Present mk"
    and c: "maps_img_fitted (self s) = Present c"
    and prep: "transform_prepare E imgs mk c s = (Inr (mk', q), s1)"
  shows "(\<not> allow_overlap (self s) \<and> q < length (heap s1) \<and> data_dtype (heap s1 ! q) = Float f \<and>
          overlap_after_masking (finfo_eps f) (heap s1 ! q) (img_at s1 mk') \<longrightarrow>
            transform_single_imgs E imgs conf sm s =
              (Inl ValueError_overlap,
               write_data q (zero_low_values (finfo_eps f) (voxels (heap s1 ! q)))
                 (emit (Ev_get_data q) s1)) \<and>
            (Ev_filter_and_extract \<notin> set (trace s) \<longrightarrow>
               Ev_filter_and_extract \<notin> set (trace (snd (transform_single_imgs E imgs conf sm s))))) \<and>
         (allow_overlap (self s) \<longrightarrow>
            transform_single_imgs E imgs conf sm s = transform_extract E imgs conf sm mk' q s1) \<and>
         (allow_overlap (self s) \<longrightarrow>
            fst (transform_single_imgs E imgs conf sm s) \<noteq> Inl ValueError_overlap)"
proof (intro conjI impI)
  note unf = transform_single_imgs_unfold[OF fitted mk c prep, of conf sm]
  note k = transform_prepare_keeps[OF prep]
  {
    assume a: "\<not> allow_overlap (self s) \<and> q < length (heap s1) \<and> data_dtype (heap s1 ! q) = Float f \<and>
          overlap_after_masking (finfo_eps f) (heap s1 ! q) (img_at s1 mk')"
    from a k have no: "\<not> allow_overlap (self s1)" by (simp add: transform_keeps_def)
    from a have det: "overlap_detected (zero_low_values (finfo_eps f) (voxels (heap s1 ! q)))"
      by (auto intro: overlap_after_masking_detected)
    from a have "q < length (heap s1)" "data_dtype (heap s1 ! q) = Float f" by simp_all
    note raises = transform_check_overlap_raises[OF no this det]
    show res: "transform_single_imgs E imgs conf sm s =
              (Inl ValueError_overlap,
               write_data q (zero_low_values (finfo_eps f) (voxels (heap s1 ! q)))
                 (emit (Ev_get_data q) s1))"
      by (simp add: unf bind_def raises)
    assume "Ev_filter_and_extract \<notin> set (trace s)"
    with k show "Ev_filter_and_extract \<notin> set (trace (snd (transform_single_imgs E imgs conf sm s)))"
      by (auto simp: res write_data_def emit_def transform_keeps_def list_all_iff)
  }
  {
    assume al: "allow_overlap (self s)"
    with k have "allow_overlap (self s1)" by (simp add: transform_keeps_def)
    then show "transform_single_imgs E imgs conf sm s = transform_extract E imgs conf sm mk' q s1"
      by (simp add: unf bind_def transform_check_overlap_allowed)
    from al show "fst (transform_single_imgs E imgs conf sm s) \<noteq> Inl ValueError_overlap"
      by (rule transform_allowed_no_overlap_error)
  }
qed

theorem overlap_check_before_extraction_witness:
  "fst (transform_single_imgs env0 1 None None shared_fitted) = Inl ValueError_overlap \<and>
   Ev_filter_and_extract \<notin> set (trace (snd (transform_single_imgs env0 1 None None shared_fitted))) \<and>
   fst (transform_single_imgs env0 1 None None shared_lenient) = Inr (replicate 3 (replicate 2 0))"
proof -
  let ?s1 = "snd (transform_prepare env0 1 None (Some 3) shared_fitted)"
  let ?t1 = "snd (transform_prepare env0 1 None (Some 3) shared_lenient)"
  have f: "sklearn_is_fitted (self shared_fitted)" "sklearn_is_fitted (self shared_lenient)"
    by (simp_all add: shared_lenient_def shared_fitted_self sklearn_is_fitted_def)
  have mk: "mask_img_fitted (self shared_fitted) = Present None"
    "mask_img_fitted (self shared_lenient) = Present None"
    by (simp_all add: shared_lenient_def shared_fitted_self)
  have c: "maps_img_fitted (self shared_fitted) = Present (Some 3)"
    "maps_img_fitted (self shared_lenient) = Present (Some 3)"
    by (simp_all add: shared_lenient_def shared_fitted_self)
  have "fst (transform_prepare env0 1 None (Some 3) shared_fitted) = Inr (None, 3)"
    by (simp add: transform_defs prim_defs shared_fitted_heap shared_fitted_self setting_defs)
  then have prep: "transform_prepare env0 1 None (Some 3) shared_fitted = (Inr (None, 3), ?s1)"
    by (metis prod.collapse)
  have "fst (transform_prepare env0 1 None (Some 3) shared_lenient) = Inr (None, 3)"
    by (simp add: shared_lenient_def transform_defs prim_defs shared_fitted_heap
        shared_fitted_self setting_defs)
  then have prep': "transform_prepare env0 1 None (Some 3) shared_lenient = (Inr (None, 3), ?t1)"
    by (metis prod.collapse)
  have h: "heap ?s1 = heap shared_fitted"
    by (simp add: transform_defs prim_defs shared_fitted_heap shared_fitted_self setting_defs)
  have pre: "\<not> allow_overlap (self shared_fitted) \<and> 3 < length (heap ?s1) \<and>
      data_dtype (heap ?s1 ! 3) = Float Float64 \<and>
      overlap_after_masking (finfo_eps Float64) (heap ?s1 ! 3) (img_at ?s1 None)"
    by (simp add: h shared_fitted_heap shared_fitted_self strict_masker_def new_masker_def
        overlap_after_masking_def in_mask_def img_at_def maps_shared_def del: One_nat_def)
  have tr: "Ev_filter_and_extract \<notin> set (trace shared_fitted)"
    by (simp add: shared_fitted_trace)
  have al: "allow_overlap (self shared_lenient)"
    by (simp add: shared_lenient_def)
  have ex: "fst (transform_extract env0 1 None None None 3 ?t1) = Inr (replicate 3 (replicate 2 0))"
    by (simp add: shared_lenient_def transform_defs prim_defs shared_fitted_heap
        shared_fitted_self setting_defs)
  note strict = overlap_check_before_extraction[OF f(1) mk(1) c(1) prep, of Float64 None None,
      THEN conjunct1, THEN mp, OF pre]
  note lenient = overlap_check_before_extraction[OF f(2) mk(2) c(2) prep', of Float64 None None,
      THEN conjunct2, THEN conjunct1, THEN mp, OF al]
  have "fst (transform_single_imgs env0 1 None None shared_fitted) = Inl ValueError_overlap"
    by (simp only: strict[THEN conjunct1] fst_conv)
  moreover note strict[THEN conjunct2, THEN mp, OF tr]
  moreover have "fst (transform_single_imgs env0 1 None None shared_lenient) =
      Inr (replicate 3 (replicate 2 0))"
    by (simp only: lenient ex)
  ultimately show ?thesis by blast
qed


section \<open>What transform does to the fitted state\<close>

text \<open>
  Claim C2. The claim is that transform leaves the fitted state untouched, the voxel
  data of the fitted images included. The references held by the masker do stay the
  same, and a resampled copy is bound to a local only. But when \<^verbatim>\<open>allow_overlap\<close> is
  false and the maps needed no resampling, the local \<^verbatim>\<open>maps_img_\<close> is the fitted
  image itself, and the overlap check writes zeros into its data. Here the masker is
  fitted on \<open>maps_apart\<close>, whose second map is \<open>- 1/4\<close> on the first voxel; after one
  transform of images on the same grid the fitted maps hold \<open>0\<close> there.
\<close>

theorem transform_zeroes_fitted_maps:
  "fst (fit env0 (Some 1) apart_start) = Inr () \<and>
   maps_img_fitted (self apart_fitted) = Present (Some 3) \<and>
   voxels (heap apart_fitted ! 3) = [[1 / 2, - (1 / 4)], [0, 1]] \<and>
   fst (transform_single_imgs env0 1 None None apart_fitted) = Inr (replicate 3 (replicate 2 0)) \<and>
   maps_img_fitted (self (snd (transform_single_imgs env0 1 None None apart_fitted))) =
     Present (Some 3) \<and>
   voxels (heap (snd (transform_single_imgs env0 1 None None apart_fitted)) ! 3) =
     [[1 / 2, 0], [0, 1]]"
  using apart_fit
  by (simp add: transform_defs prim_defs apart_fitted_heap apart_fitted_self setting_defs)

section \<open>Fitting again\<close>




section \<open>The parameter checks of fit\<close>

text \<open>
  Claim C4. With \<^verbatim>\<open>resampling_target="mask"\<close> and no mask, and likewise with a resampling
  target outside "mask", "maps", "data" and \<^verbatim>\<open>None\<close>, fit raises before it has loaded or
  touched any image: the state it leaves is the state it was called in, heap, trace and
  masker. The error is the ValueError of that check, unless \<^verbatim>\<open>check_params\<close>, which runs
  first, has refused the parameters already.
\<close>

theorem fit_rejects_resampling_target_eagerly:
  "(resampling_target (self s) = Some ''mask'' \<and> mask_img (self s) = None \<longrightarrow>
      (\<exists>e. fit E imgs s = (Inl e, s) \<and>
           (check_params E (self s) = None \<longrightarrow> e = ValueError_mask_target_without_mask))) \<and>
   (resampling_target (self s) \<notin> {Some ''mask'', Some ''maps'', Some ''data'', None} \<longrightarrow>
      (\<exists>e. fit E imgs s = (Inl e, s) \<and>
           (check_params E (self s) = None \<longrightarrow> e = ValueError_invalid_resampling_target)))"
  by (auto simp: fit_def bind_def fit_validate_def split: option.splits)

theorem fit_rejects_resampling_target_eagerly_witness:
  "fit env0 (Some 1) (start (new_masker\<lparr>maps_img := Some 0, resampling_target := Some ''mask''\<rparr>)
                        [maps_apart, data_img]) =
     (Inl ValueError_mask_target_without_mask,
      start (new_masker\<lparr>maps_img := Some 0, resampling_target := Some ''mask''\<rparr>)
        [maps_apart, data_img]) \<and>
   fit env0 (Some 1) (start (new_masker\<lparr>maps_img := Some 0, resampling_target := Some ''labels''\<rparr>)
                        [maps_apart, data_img]) =
     (Inl ValueError_invalid_resampling_target,
      start (new_masker\<lparr>maps_img := Some 0, resampling_target := Some ''labels''\<rparr>)
        [maps_apart, data_img])"
proof -
  let ?a = "start (new_masker\<lparr>maps_img := Some 0, resampling_target := Some ''mask''\<rparr>)
              [maps_apart, data_img]"
  let ?b = "start (new_masker\<lparr>maps_img := Some 0, resampling_target := Some ''labels''\<rparr>)
              [maps_apart, data_img]"
  have a: "resampling_target (self ?a) = Some ''mask'' \<and> mask_img (self ?a) = None"
    by (simp add: start_def new_masker_def)
  have b: "resampling_target (self ?b) \<notin> {Some ''mask'', Some ''maps'', Some ''data'', None}"
    by (simp add: start_def new_masker_def)
  have c: "check_params env0 (self ?a) = None" "check_params env0 (self ?b) = None"
    by (simp_all add: env0_def)
  from fit_rejects_resampling_target_eagerly[of ?a env0 "Some 1", THEN conjunct1, THEN mp, OF a]
    fit_rejects_resampling_target_eagerly[of ?b env0 "Some 1", THEN conjunct2, THEN mp, OF b] c
  show ?thesis by auto
qed


section \<open>Interpolation\<close>



section \<open>Before fit\<close>

text \<open>
  Claim C6. On a masker on which no fit has completed, transform and inverse_transform
  raise NotFittedError at once: the state is left as it was, with no call and no warning
  recorded. \<^verbatim>\<open>n_elements_\<close> is the last attribute fit assigns, so a masker without it is
  not fitted, and stays unfitted through any fit that raises.
\<close>

theorem unfitted_masker_raises_not_fitted:
  "(\<not> sklearn_is_fitted (self s) \<longrightarrow>
      transform_single_imgs E imgs conf sm s = (Inl NotFittedError, s) \<and>
      transform E imgs conf sm s = (Inl NotFittedError, s) \<and>
      inverse_transform E region_signals s = (Inl NotFittedError, s)) \<and>
   (n_elements_fitted (self s) = Absent \<longrightarrow>
      \<not> sklearn_is_fitted (self s) \<and>
      (\<forall>E' imgs' r s'. fit E' imgs' s = (r, s') \<and> r \<noteq> Inr () \<longrightarrow>
         \<not> sklearn_is_fitted (self s')))"
proof (intro conjI impI allI)
  assume "\<not> sklearn_is_fitted (self s)"
  then show "transform_single_imgs E imgs conf sm s = (Inl NotFittedError, s)"
    and "transform E imgs conf sm s = (Inl NotFittedError, s)"
    and "inverse_transform E region_signals s = (Inl NotFittedError, s)"
    by (simp_all add: transform_single_imgs_def transform_def inverse_transform_def
        check_is_fitted_def bind_def)
next
  assume "n_elements_fitted (self s) = Absent"
  then show "\<not> sklearn_is_fitted (self s)" by (simp add: sklearn_is_fitted_def)
next
  fix E' imgs' r s'
  assume a: "n_elements_fitted (self s) = Absent" and b: "fit E' imgs' s = (r, s') \<and> r \<noteq> Inr ()"
  from b fit_has_outcome[of E' imgs' s r s'] a
  show "\<not> sklearn_is_fitted (self s')"
    by (simp add: fit_outcome_def sklearn_is_fitted_def)
qed

theorem unfitted_masker_raises_not_fitted_witness:
  "transform_single_imgs env0 0 None None (start new_masker [data_img]) =
     (Inl NotFittedError, start new_masker [data_img]) \<and>
   inverse_transform env0 [[1]] (start new_masker [data_img]) =
     (Inl NotFittedError, start new_masker [data_img]) \<and>
   fst (fit env0 (Some 0) (start new_masker [data_img])) =
     Inl (Collaborator ''TypeError: not a niimg'') \<and>
   maps_img_fitted (self (snd (fit env0 (Some 0) (start new_masker [data_img])))) = Present None \<and>
   fst (transform_single_imgs env0 0 None None (snd (fit env0 (Some 0) (start new_masker [data_img])))) =
     Inl NotFittedError"
proof -
  let ?s = "start new_masker [data_img]"
  let ?f = "fit env0 (Some 0) ?s"
  have n: "n_elements_fitted (self ?s) = Absent" by (simp add: start_def new_masker_def)
  note T = unfitted_masker_raises_not_fitted[of ?s env0 0 None None "[[1]]"]
  from T n have u: "\<not> sklearn_is_fitted (self ?s)" by blast
  note first = T[THEN conjunct1, THEN mp, OF u]
  have r: "fst ?f = Inl (Collaborator ''TypeError: not a niimg'')"
    and m: "maps_img_fitted (self (snd ?f)) = Present None"
    by (simp_all add: fit_defs prim_defs setting_defs)
  have p: "?f = (fst ?f, snd ?f)" by simp
  have "fst ?f \<noteq> Inr ()" by (simp add: r)
  with p T n have "\<not> sklearn_is_fitted (self (snd ?f))" by blast
  from unfitted_masker_raises_not_fitted[of "snd ?f" env0 0 None None "[[1]]", THEN conjunct1,
      THEN mp, OF this]
  have "fst (transform_single_imgs env0 0 None None (snd ?f)) = Inl NotFittedError"
    by (simp only: fst_conv)
  with first r m show ?thesis by blast
qed

section \<open>fit_transform\<close>

text \<open>
  Claim C7. \<^verbatim>\<open>fit_transform(imgs, confounds, sample_mask)\<close> is the sequential
  composition: fit on the images and then transform, on the same masker, of the same
  images with the confounds and the sample mask. Both give the same result and leave
  the same state, also when either step raises.
\<close>

theorem fit_transform_is_fit_then_transform:
  "fit_transform E imgs conf sm s = fit_then_transform E imgs conf sm s"
  by (simp add: fit_transform_def fit_then_transform_def bind_def split: prod.splits sum.splits)

theorem fit_transform_is_fit_then_transform_witness:
  "fit_transform env0 1 None None apart_start = fit_then_transform env0 1 None None apart_start \<and>
   fst (fit_then_transform env0 1 None None apart_start) = Inr (replicate 3 (replicate 2 0))"
proof -
  from apart_fit have f: "fit env0 (Some 1) apart_start = (Inr (), apart_fitted)"
    unfolding apart_fitted_def by (metis prod.collapse)
  have t: "fst (transform env0 1 None None apart_fitted) = Inr (replicate 3 (replicate 2 0))"
    by (simp add: transform_defs prim_defs apart_fitted_heap apart_fitted_self setting_defs)
  have "fst (fit_then_transform env0 1 None None apart_start) = Inr (replicate 3 (replicate 2 0))"
    by (simp only: fit_then_transform_def f Let_def prod.case sum.case t)
  with fit_transform_is_fit_then_transform[of env0 1 None None apart_start]
  show ?thesis by blast
qed

section \<open>Asking the report for more maps than exist\<close>




section \<open>What fit leaves alone\<close>

text \<open>
  Claim C9. fit does not modify the maps image the caller supplied: every object that
  was on the heap when fit was called, the caller's maps image among them, is the same
  afterwards, and the fitted \<^verbatim>\<open>maps_img_\<close> is an object that did not exist before the
  call (it descends from the deep copy), whatever sanitising and resampling fit did.
\<close>

theorem fit_leaves_caller_images:
  assumes "fit E imgs s = (r, s')"
  shows "length (heap s) \<le> length (heap s') \<and>
         (\<forall>p < length (heap s). heap s' ! p = heap s ! p) \<and>
         (r = Inr () \<longrightarrow>
            (\<exists>q. maps_img_fitted (self s') = Present (Some q) \<and> length (heap s) \<le> q))"
proof -
  from fit_has_outcome[OF assms] obtain objs where "heap s' = heap s @ objs"
    by (auto simp: fit_outcome_def)
  then have "length (heap s) \<le> length (heap s')" "\<forall>p < length (heap s). heap s' ! p = heap s ! p"
    by (simp_all add: nth_append)
  moreover have "\<exists>q. maps_img_fitted (self s') = Present (Some q) \<and> length (heap s) \<le> q"
    if "r = Inr ()"
    using fit_success[of E imgs s s'] assms that by blast
  ultimately show ?thesis by blast
qed

theorem fit_leaves_caller_images_witness:
  "heap masked_fitted ! 0 = maps_apart \<and> heap masked_fitted ! 1 = mask_two \<and>
   heap masked_fitted ! 2 = data_wide \<and>
   maps_img_fitted (self masked_fitted) = Present (Some 6) \<and>
   voxels (heap masked_fitted ! 6) = [[1 / 2, - (1 / 4)], [0, 1], [0, 0]]"
proof -
  have 1: "fit env0 (Some 2) masked_start = (fst (fit env0 (Some 2) masked_start), masked_fitted)"
    by (simp add: masked_fitted_def)
  have h: "heap masked_start = [maps_apart, mask_two, data_wide, data_img]"
    by (simp add: masked_start_def start_def)
  from fit_leaves_caller_images[OF 1, THEN conjunct2, THEN conjunct1] h
  have "heap masked_fitted ! 0 = maps_apart" "heap masked_fitted ! 1 = mask_two"
    "heap masked_fitted ! 2 = data_wide"
    by simp_all
  moreover have "maps_img_fitted (self masked_fitted) = Present (Some 6)"
    "voxels (heap masked_fitted ! 6) = [[1 / 2, - (1 / 4)], [0, 1], [0, 0]]"
    by (simp_all add: masked_fitted_self masked_fitted_heap setting_defs)
  ultimately show ?thesis by blast
qed

section \<open>No overlap check in fit\<close>

text \<open>
  Claim C10. fit never raises the overlap error, whatever the maps and whatever
  \<^verbatim>\<open>allow_overlap\<close>: the check is in transform only. On \<open>maps_shared\<close>, whose two maps are
  both positive on the first voxel, a masker with \<^verbatim>\<open>allow_overlap=False\<close> is fitted
  without error, and its first transform raises.
\<close>

theorem fit_never_raises_overlap:
  "fst (fit E imgs s) \<noteq> Inl ValueError_overlap"
  using fit_has_outcome[of E imgs s "fst (fit E imgs s)" "snd (fit E imgs s)"]
  by (simp add: fit_outcome_def)

theorem fit_never_raises_overlap_witness:
  "\<not> allow_overlap (self shared_start) \<and>
   overlap_detected (voxels (heap shared_start ! 0)) \<and>
   fst (fit env0 (Some 1) shared_start) = Inr () \<and>
   fst (fit env0 (Some 1) shared_start) \<noteq> Inl ValueError_overlap \<and>
   fst (transform_single_imgs env0 1 None None (snd (fit env0 (Some 1) shared_start))) =
     Inl ValueError_overlap"
proof -
  have "\<not> allow_overlap (self shared_start)" "overlap_detected (voxels (heap shared_start ! 0))"
    by (simp_all add: shared_start_def setting_defs overlap_detected_def)
  moreover note shared_fit fit_never_raises_overlap[of env0 "Some 1" shared_start]
  moreover have "fst (transform_single_imgs env0 1 None None shared_fitted) = Inl ValueError_overlap"
    by (simp add: transform_defs prim_defs shared_fitted_heap shared_fitted_self setting_defs)
  ultimately show ?thesis unfolding shared_fitted_def by blast
qed


end
